theory Spec2Isabelle
  imports Complex_Main "HOL-Library.AList"
begin

section \<open>Decoded JSON and Python values\<close>

text \<open>
  The program never looks inside a value further than subscripting it with a string key,
  iterating over it, or unpacking it as keyword arguments. One datatype stands for the
  values \<^verbatim>\<open>response.json()\<close> returns and for the \<^verbatim>\<open>Any\<close> values a caller passes
  as query parameters. A Python dict keeps its insertion order and has each key once: it is
  an association list, read with \<^const>\<open>map_of\<close> and written with \<^const>\<open>AList.update\<close>
  (an existing key keeps its place, a new key goes last). A character of a \<^typ>\<open>string\<close>
  stands for one character of a Python \<^verbatim>\<open>str\<close>.
\<close>

datatype json =
    JNull
  | JBool bool
  | JInt int
  | JFloat real
  | JStr string
  | JList "json list"
  | JObj "(string \<times> json) list"

type_synonym pydict = "(string \<times> json) list"

section \<open>HTTP messages and errors\<close>

datatype http_method = GET

record request =
  req_method :: http_method
  req_url :: string
  req_params :: pydict
  req_headers :: "(string \<times> string) list"
  req_timeout :: real

text \<open>
  A response as the program sees it: the status code, the raw body, and what
  \<^verbatim>\<open>response.json()\<close> gives for that body (\<open>None\<close> when the body is not JSON).
\<close>

record response =
  status_code :: int
  content :: string
  json_body :: "json option"

text \<open>
  Every exception the program can end with. \<open>KeyError\<close> carries the missing key,
  \<open>HTTPStatusError\<close> the response it was raised for, \<open>RequestError\<close> stands for the
  transport failures of the HTTP library (connection, DNS, timeout), \<open>ClientClosed\<close> for
  the \<^verbatim>\<open>RuntimeError\<close> the library raises when a closed client is asked to send.
\<close>

datatype error =
    KeyError string
  | TypeError
  | JSONDecodeError
  | HTTPStatusError response
  | RequestError string
  | ClientClosed

definition bind :: "error + 'a \<Rightarrow> ('a \<Rightarrow> error + 'b) \<Rightarrow> error + 'b" where
  "bind m f = (case m of Inl e \<Rightarrow> Inl e | Inr x \<Rightarrow> f x)"

section \<open>Python primitives the record constructors use\<close>

text \<open>\<^verbatim>\<open>data[key]\<close> with a string key: only a dict can be subscripted so.\<close>

fun getitem :: "json \<Rightarrow> string \<Rightarrow> error + json" where
  "getitem (JObj kvs) k = (case map_of kvs k of None \<Rightarrow> Inl (KeyError k) | Some v \<Rightarrow> Inr v)"
| "getitem _ k = Inl TypeError"

text \<open>
  \<^verbatim>\<open>for x in value\<close>: a list gives its elements, a string its characters, a dict its
  keys; nothing else can be iterated.
\<close>

fun iter :: "json \<Rightarrow> error + json list" where
  "iter (JList xs) = Inr xs"
| "iter (JStr s) = Inr (map (\<lambda>c. JStr [c]) s)"
| "iter (JObj kvs) = Inr (map (\<lambda>kv. JStr (fst kv)) kvs)"
| "iter _ = Inl TypeError"

text \<open>\<^verbatim>\<open>**value\<close>: the value must be a mapping.\<close>

fun unpack :: "json \<Rightarrow> error + pydict" where
  "unpack (JObj kvs) = Inr kvs"
| "unpack _ = Inl TypeError"

text \<open>A list comprehension \<^verbatim>\<open>[f(x) for x in xs]\<close>: the first exception ends it.\<close>

fun comprehension :: "('a \<Rightarrow> error + 'b) \<Rightarrow> 'a list \<Rightarrow> error + 'b list" where
  "comprehension f [] = Inr []"
| "comprehension f (x # xs) =
     (case f x of
        Inl e \<Rightarrow> Inl e
      | Inr y \<Rightarrow> (case comprehension f xs of Inl e \<Rightarrow> Inl e | Inr ys \<Rightarrow> Inr (y # ys)))"

text \<open>
  The generated \<^verbatim>\<open>__init__\<close> of a dataclass whose fields have no defaults, called with
  keyword arguments only: a keyword that is not a field is a \<^verbatim>\<open>TypeError\<close>, and so is
  a field with no keyword. The values are stored as they come; the annotations are not
  checked.
\<close>

definition unexpected :: "string list \<Rightarrow> pydict \<Rightarrow> bool" where
  "unexpected fs kw = (\<exists>k \<in> set (map fst kw). k \<notin> set fs)"

definition arg :: "pydict \<Rightarrow> string \<Rightarrow> error + json" where
  "arg kw f = (case map_of kw f of None \<Rightarrow> Inl TypeError | Some v \<Rightarrow> Inr v)"

section \<open>The records\<close>

record Column =
  col_name :: json
  col_type :: json
  col_codec :: json
  col_default_value :: json
  col_jsonpath :: json
  col_nullable :: json
  col_normalized_name :: json

definition Column_fields :: "string list" where
  "Column_fields =
     [''name'', ''type'', ''codec'', ''default_value'', ''jsonpath'', ''nullable'',
      ''normalized_name'']"

definition Column_init :: "pydict \<Rightarrow> error + Column" where
  "Column_init kw =
     (if unexpected Column_fields kw then Inl TypeError
      else
        bind (arg kw ''name'') (\<lambda>a1.
        bind (arg kw ''type'') (\<lambda>a2.
        bind (arg kw ''codec'') (\<lambda>a3.
        bind (arg kw ''default_value'') (\<lambda>a4.
        bind (arg kw ''jsonpath'') (\<lambda>a5.
        bind (arg kw ''nullable'') (\<lambda>a6.
        bind (arg kw ''normalized_name'') (\<lambda>a7.
        Inr \<lparr>col_name = a1, col_type = a2, col_codec = a3, col_default_value = a4,
             col_jsonpath = a5, col_nullable = a6, col_normalized_name = a7\<rparr>))))))))"

record Engine =
  eng_engine :: json
  eng_engine_sorting_key :: json
  eng_engine_partition_key :: json
  eng_engine_primary_key :: json

definition Engine_fields :: "string list" where
  "Engine_fields =
     [''engine'', ''engine_sorting_key'', ''engine_partition_key'', ''engine_primary_key'']"

definition Engine_init :: "pydict \<Rightarrow> error + Engine" where
  "Engine_init kw =
     (if unexpected Engine_fields kw then Inl TypeError
      else
        bind (arg kw ''engine'') (\<lambda>a1.
        bind (arg kw ''engine_sorting_key'') (\<lambda>a2.
        bind (arg kw ''engine_partition_key'') (\<lambda>a3.
        bind (arg kw ''engine_primary_key'') (\<lambda>a4.
        Inr \<lparr>eng_engine = a1, eng_engine_sorting_key = a2, eng_engine_partition_key = a3,
             eng_engine_primary_key = a4\<rparr>)))))"

record DataSource =
  ds_id :: json
  ds_name :: json
  ds_engine :: Engine
  ds_columns :: "Column list"
  ds_indexes :: json
  ds_new_columns_detected :: json
  ds_quarantine_rows :: json

text \<open>
  \<^verbatim>\<open>DataSource.from_dict\<close>, in the order Python evaluates it: the engine, the columns,
  then the keyword arguments of \<^verbatim>\<open>cls(...)\<close> from left to right.
\<close>

definition DataSource_from_dict :: "json \<Rightarrow> error + DataSource" where
  "DataSource_from_dict data =
     bind (getitem data ''engine'') (\<lambda>e.
     bind (unpack e) (\<lambda>ekw.
     bind (Engine_init ekw) (\<lambda>engine.
     bind (getitem data ''columns'') (\<lambda>cs.
     bind (iter cs) (\<lambda>cols.
     bind (comprehension (\<lambda>col. bind (unpack col) Column_init) cols) (\<lambda>columns.
     bind (getitem data ''id'') (\<lambda>a1.
     bind (getitem data ''name'') (\<lambda>a2.
     bind (getitem data ''indexes'') (\<lambda>a3.
     bind (getitem data ''new_columns_detected'') (\<lambda>a4.
     bind (getitem data ''quarantine_rows'') (\<lambda>a5.
     Inr \<lparr>ds_id = a1, ds_name = a2, ds_engine = engine, ds_columns = columns,
          ds_indexes = a3, ds_new_columns_detected = a4, ds_quarantine_rows = a5\<rparr>)))))))))))"

record Pipe =
  p_type :: json
  p_id :: json
  p_name :: json
  p_description :: json
  p_endpoint :: json
  p_url :: json

definition Pipe_fields :: "string list" where
  "Pipe_fields = [''type'', ''id'', ''name'', ''description'', ''endpoint'', ''url'']"

definition Pipe_init :: "pydict \<Rightarrow> error + Pipe" where
  "Pipe_init kw =
     (if unexpected Pipe_fields kw then Inl TypeError
      else
        bind (arg kw ''type'') (\<lambda>a1.
        bind (arg kw ''id'') (\<lambda>a2.
        bind (arg kw ''name'') (\<lambda>a3.
        bind (arg kw ''description'') (\<lambda>a4.
        bind (arg kw ''endpoint'') (\<lambda>a5.
        bind (arg kw ''url'') (\<lambda>a6.
        Inr \<lparr>p_type = a1, p_id = a2, p_name = a3, p_description = a4,
             p_endpoint = a5, p_url = a6\<rparr>)))))))"

definition Pipe_from_dict :: "json \<Rightarrow> error + Pipe" where
  "Pipe_from_dict data = bind (unpack data) Pipe_init"

record PipeData =
  pd_meta :: json
  pd_data :: json
  pd_rows :: json
  pd_statistics :: json

definition PipeData_fields :: "string list" where
  "PipeData_fields = [''meta'', ''data'', ''rows'', ''statistics'']"

definition PipeData_init :: "pydict \<Rightarrow> error + PipeData" where
  "PipeData_init kw =
     (if unexpected PipeData_fields kw then Inl TypeError
      else
        bind (arg kw ''meta'') (\<lambda>a1.
        bind (arg kw ''data'') (\<lambda>a2.
        bind (arg kw ''rows'') (\<lambda>a3.
        bind (arg kw ''statistics'') (\<lambda>a4.
        Inr \<lparr>pd_meta = a1, pd_data = a2, pd_rows = a3, pd_statistics = a4\<rparr>)))))"

definition PipeData_from_dict :: "json \<Rightarrow> error + PipeData" where
  "PipeData_from_dict data = bind (unpack data) PipeData_init"

section \<open>The HTTP library, as far as the client uses it\<close>

text \<open>
  \<^verbatim>\<open>httpx.AsyncClient\<close> is not part of the repository. What the program relies on is
  modelled here and nothing more: a client is built with a timeout and headers that go
  with each of its requests, \<^verbatim>\<open>aclose\<close> closes it, and \<^verbatim>\<open>get\<close> on a closed client
  raises before anything is sent. What happens to a request that is sent is the
  environment's choice: a function from the requests recorded so far and the new request
  to a response or a transport failure. URLs and parameters are taken as the library
  accepts them.
\<close>

record AsyncClient =
  timeout :: real
  headers :: "(string \<times> string) list"
  is_closed :: bool

definition AsyncClient_init :: "real \<Rightarrow> (string \<times> string) list \<Rightarrow> AsyncClient" where
  "AsyncClient_init t hs = \<lparr>timeout = t, headers = hs, is_closed = False\<rparr>"

definition aclose :: "AsyncClient \<Rightarrow> AsyncClient" where
  "aclose c = c\<lparr>is_closed := True\<rparr>"

datatype outcome = Responds response | Fails string

type_synonym server = "request list \<Rightarrow> request \<Rightarrow> outcome"

definition AsyncClient_get ::
  "server \<Rightarrow> AsyncClient \<Rightarrow> string \<Rightarrow> pydict \<Rightarrow> request list \<Rightarrow> (error + response) \<times> request list"
where
  "AsyncClient_get srv c url params sent =
     (if is_closed c then (Inl ClientClosed, sent)
      else
        let req = \<lparr>req_method = GET, req_url = url, req_params = params,
                   req_headers = headers c, req_timeout = timeout c\<rparr>
        in (case srv sent req of
              Fails msg \<Rightarrow> Inl (RequestError msg)
            | Responds r \<Rightarrow> Inr r,
            sent @ [req]))"

text \<open>\<^verbatim>\<open>response.raise_for_status()\<close>: anything but a 2xx status raises.\<close>

definition raise_for_status :: "response \<Rightarrow> error + response" where
  "raise_for_status r =
     (if 200 \<le> status_code r \<and> status_code r \<le> 299 then Inr r else Inl (HTTPStatusError r))"

text \<open>\<^verbatim>\<open>response.json()\<close>.\<close>

definition response_json :: "response \<Rightarrow> error + json" where
  "response_json r = (case json_body r of None \<Rightarrow> Inl JSONDecodeError | Some j \<Rightarrow> Inr j)"

section \<open>APIClient\<close>

record APIClient =
  api_url :: string
  token :: string
  client :: AsyncClient

text \<open>\<^verbatim>\<open>s.rstrip(chars)\<close>: drop every trailing character that is in \<open>chars\<close>.\<close>

definition rstrip :: "string \<Rightarrow> string \<Rightarrow> string" where
  "rstrip s chars = rev (dropWhile (\<lambda>c. c \<in> set chars) (rev s))"

text \<open>\<^verbatim>\<open>APIClient.__init__\<close>\<close>

definition APIClient_init :: "string \<Rightarrow> string \<Rightarrow> APIClient" where
  "APIClient_init url tok =
     \<lparr>api_url = rstrip url ''/'',
      token = tok,
      client = AsyncClient_init 30
        [(''Accept'', ''application/json''), (''User-Agent'', ''Python/APIClient'')]\<rparr>"

definition close :: "APIClient \<Rightarrow> APIClient" where
  "close self = self\<lparr>client := aclose (client self)\<rparr>"

text \<open>\<^verbatim>\<open>__aenter__\<close> and \<^verbatim>\<open>__aexit__\<close>\<close>

definition aenter :: "APIClient \<Rightarrow> APIClient" where
  "aenter self = self"

definition aexit :: "APIClient \<Rightarrow> APIClient" where
  "aexit self = close self"

text \<open>
  \<^verbatim>\<open>APIClient._get\<close>. The second component of the result is the record of the requests
  sent so far, in order.
\<close>

definition APIClient_get ::
  "server \<Rightarrow> APIClient \<Rightarrow> string \<Rightarrow> pydict option \<Rightarrow> request list \<Rightarrow> (error + json) \<times> request list"
where
  "APIClient_get srv self endpoint params sent =
     (let params0 = (case params of None \<Rightarrow> [] | Some p \<Rightarrow> p);
          params1 = AList.update ''token'' (JStr (token self)) params0;
          url = api_url self @ ''/'' @ endpoint;
          (r, sent') = AsyncClient_get srv (client self) url params1 sent
      in (bind r (\<lambda>response. bind (raise_for_status response) response_json), sent'))"

definition list_data_sources ::
  "server \<Rightarrow> APIClient \<Rightarrow> request list \<Rightarrow> (error + DataSource list) \<times> request list"
where
  "list_data_sources srv self sent =
     (let params = [(''attrs'', JStr ''id,name,description,columns'')];
          (r, sent') = APIClient_get srv self ''v0/datasources'' (Some params) sent
      in (bind r (\<lambda>response.
            bind (getitem response ''datasources'') (\<lambda>dss.
            bind (iter dss) (comprehension DataSource_from_dict))),
          sent'))"

definition get_data_source ::
  "server \<Rightarrow> APIClient \<Rightarrow> string \<Rightarrow> request list \<Rightarrow> (error + json) \<times> request list"
where
  "get_data_source srv self datasource_id sent =
     (let params = [(''debug'', JStr ''columns''), (''include_workspace_names'', JStr ''true'')]
      in APIClient_get srv self (''v0/datasources/'' @ datasource_id) (Some params) sent)"

definition list_pipes ::
  "server \<Rightarrow> APIClient \<Rightarrow> request list \<Rightarrow> (error + Pipe list) \<times> request list"
where
  "list_pipes srv self sent =
     (let params = [(''attrs'', JStr ''id,name,description,type,endpoint'')];
          (r, sent') = APIClient_get srv self ''v0/pipes'' (Some params) sent
      in (bind r (\<lambda>response.
            bind (getitem response ''pipes'') (\<lambda>ps.
            bind (iter ps) (comprehension Pipe_from_dict))),
          sent'))"

definition get_pipe ::
  "server \<Rightarrow> APIClient \<Rightarrow> string \<Rightarrow> request list \<Rightarrow> (error + json) \<times> request list"
where
  "get_pipe srv self pipe_name sent =
     APIClient_get srv self (''v0/pipes/'' @ pipe_name) None sent"

text \<open>
  \<^verbatim>\<open>get_pipe_data(self, pipe_name, **params)\<close>: \<open>params\<close> is the dict Python
  collects from the caller's keyword arguments, a fresh dict with string keys (the names
  \<open>self\<close> and \<open>pipe_name\<close> bind to the named parameters and never reach it).
\<close>

definition get_pipe_data ::
  "server \<Rightarrow> APIClient \<Rightarrow> string \<Rightarrow> pydict \<Rightarrow> request list \<Rightarrow> (error + PipeData) \<times> request list"
where
  "get_pipe_data srv self pipe_name params sent =
     (let (r, sent') =
            APIClient_get srv self (''v0/pipes/'' @ pipe_name @ ''.json'') (Some params) sent
      in (bind r PipeData_from_dict, sent'))"

definition run_select_query ::
  "server \<Rightarrow> APIClient \<Rightarrow> string \<Rightarrow> request list \<Rightarrow> (error + json) \<times> request list"
where
  "run_select_query srv self query sent =
     (let params = [(''q'', JStr (query @ '' FORMAT JSON''))]
      in APIClient_get srv self ''v0/sql'' (Some params) sent)"

section \<open>Calls and runs\<close>

text \<open>
  The six public operations as one datatype, so that a statement can range over all of
  them, and the things a caller can do with a client in sequence: call an operation (its
  result is dropped here), close the client, enter or leave its scope.
\<close>

datatype operation =
    ListDataSources
  | GetDataSource string
  | ListPipes
  | GetPipe string
  | GetPipeData string pydict
  | RunSelectQuery string

datatype result =
    DataSources "DataSource list"
  | Pipes "Pipe list"
  | Data PipeData
  | Raw json

definition returning ::
  "('a \<Rightarrow> result) \<Rightarrow> (error + 'a) \<times> request list \<Rightarrow> (error + result) \<times> request list"
where
  "returning wrap p = (map_sum (\<lambda>e. e) wrap (fst p), snd p)"

fun invoke ::
  "server \<Rightarrow> APIClient \<Rightarrow> operation \<Rightarrow> request list \<Rightarrow> (error + result) \<times> request list"
where
  "invoke srv self ListDataSources sent = returning DataSources (list_data_sources srv self sent)"
| "invoke srv self (GetDataSource i) sent = returning Raw (get_data_source srv self i sent)"
| "invoke srv self ListPipes sent = returning Pipes (list_pipes srv self sent)"
| "invoke srv self (GetPipe n) sent = returning Raw (get_pipe srv self n sent)"
| "invoke srv self (GetPipeData n ps) sent = returning Data (get_pipe_data srv self n ps sent)"
| "invoke srv self (RunSelectQuery q) sent = returning Raw (run_select_query srv self q sent)"

datatype event = Call operation | Close | Enter | Exit

fun step :: "server \<Rightarrow> APIClient \<times> request list \<Rightarrow> event \<Rightarrow> APIClient \<times> request list" where
  "step srv (self, sent) (Call op) = (self, snd (invoke srv self op sent))"
| "step srv (self, sent) Close = (close self, sent)"
| "step srv (self, sent) Enter = (aenter self, sent)"
| "step srv (self, sent) Exit = (aexit self, sent)"

definition run :: "server \<Rightarrow> event list \<Rightarrow> APIClient \<times> request list \<Rightarrow> APIClient \<times> request list" where
  "run srv evs st = foldl (step srv) st evs"

section \<open>Notions of the specification\<close>

text \<open>
  The fields of the \<open>DataSource\<close> dataclass, as the class declares them;
  \<open>from_dict\<close> reads each of them from its argument.
\<close>

definition DataSource_fields :: "string list" where
  "DataSource_fields =
     [''id'', ''name'', ''engine'', ''columns'', ''indexes'', ''new_columns_detected'',
      ''quarantine_rows'']"

text \<open>
  The specification speaks of well-formed entries and of records whose fields equal the
  JSON fields without saying what they are. These definitions follow its data model, not
  the code: an object has exactly the fields of a record; an entry of the \<open>datasources\<close>
  array is well formed when it is an object with every \<open>DataSource\<close> field, its engine an
  object with exactly the \<open>Engine\<close> fields and its columns an array of objects with
  exactly the \<open>Column\<close> fields; a record matches a JSON object when each field of the
  record is the value the object has under the field's name.
\<close>

definition spec_has_exactly :: "string list \<Rightarrow> json \<Rightarrow> bool" where
  "spec_has_exactly fs j = (case j of JObj kvs \<Rightarrow> set (map fst kvs) = set fs | _ \<Rightarrow> False)"

definition spec_well_formed_datasource :: "json \<Rightarrow> bool" where
  "spec_well_formed_datasource j =
     (list_all (\<lambda>f. \<not> isl (getitem j f)) DataSource_fields \<and>
      (case getitem j ''engine'' of
         Inr e \<Rightarrow> spec_has_exactly Engine_fields e
       | Inl _ \<Rightarrow> False) \<and>
      (case getitem j ''columns'' of
         Inr (JList cs) \<Rightarrow> list_all (spec_has_exactly Column_fields) cs
       | _ \<Rightarrow> False))"

definition spec_Column_matches :: "json \<Rightarrow> Column \<Rightarrow> bool" where
  "spec_Column_matches j c =
     (getitem j ''name'' = Inr (col_name c) \<and>
      getitem j ''type'' = Inr (col_type c) \<and>
      getitem j ''codec'' = Inr (col_codec c) \<and>
      getitem j ''default_value'' = Inr (col_default_value c) \<and>
      getitem j ''jsonpath'' = Inr (col_jsonpath c) \<and>
      getitem j ''nullable'' = Inr (col_nullable c) \<and>
      getitem j ''normalized_name'' = Inr (col_normalized_name c))"

definition spec_Engine_matches :: "json \<Rightarrow> Engine \<Rightarrow> bool" where
  "spec_Engine_matches j e =
     (getitem j ''engine'' = Inr (eng_engine e) \<and>
      getitem j ''engine_sorting_key'' = Inr (eng_engine_sorting_key e) \<and>
      getitem j ''engine_partition_key'' = Inr (eng_engine_partition_key e) \<and>
      getitem j ''engine_primary_key'' = Inr (eng_engine_primary_key e))"

definition spec_DataSource_matches :: "json \<Rightarrow> DataSource \<Rightarrow> bool" where
  "spec_DataSource_matches j d =
     (getitem j ''id'' = Inr (ds_id d) \<and>
      getitem j ''name'' = Inr (ds_name d) \<and>
      (case getitem j ''engine'' of
         Inr e \<Rightarrow> spec_Engine_matches e (ds_engine d)
       | Inl _ \<Rightarrow> False) \<and>
      (case getitem j ''columns'' of
         Inr (JList cs) \<Rightarrow> list_all2 spec_Column_matches cs (ds_columns d)
       | _ \<Rightarrow> False) \<and>
      getitem j ''indexes'' = Inr (ds_indexes d) \<and>
      getitem j ''new_columns_detected'' = Inr (ds_new_columns_detected d) \<and>
      getitem j ''quarantine_rows'' = Inr (ds_quarantine_rows d))"

definition spec_Pipe_matches :: "json \<Rightarrow> Pipe \<Rightarrow> bool" where
  "spec_Pipe_matches j p =
     (getitem j ''type'' = Inr (p_type p) \<and>
      getitem j ''id'' = Inr (p_id p) \<and>
      getitem j ''name'' = Inr (p_name p) \<and>
      getitem j ''description'' = Inr (p_description p) \<and>
      getitem j ''endpoint'' = Inr (p_endpoint p) \<and>
      getitem j ''url'' = Inr (p_url p))"

definition spec_PipeData_matches :: "json \<Rightarrow> PipeData \<Rightarrow> bool" where
  "spec_PipeData_matches j d =
     (getitem j ''meta'' = Inr (pd_meta d) \<and>
      getitem j ''data'' = Inr (pd_data d) \<and>
      getitem j ''rows'' = Inr (pd_rows d) \<and>
      getitem j ''statistics'' = Inr (pd_statistics d))"

section \<open>What one call of \<open>_get\<close> does\<close>

lemma APIClient_get_closed:
  "is_closed (client self) \<Longrightarrow>
   APIClient_get srv self endpoint params sent = (Inl ClientClosed, sent)"
  by (simp add: APIClient_get_def AsyncClient_get_def bind_def)

lemma APIClient_get_open:
  "\<not> is_closed (client self) \<Longrightarrow>
   APIClient_get srv self endpoint params sent =
     (let req = \<lparr>req_method = GET, req_url = api_url self @ ''/'' @ endpoint,
                 req_params = AList.update ''token'' (JStr (token self))
                                (case params of None \<Rightarrow> [] | Some p \<Rightarrow> p),
                 req_headers = headers (client self), req_timeout = timeout (client self)\<rparr>
      in (case srv sent req of
            Fails msg \<Rightarrow> Inl (RequestError msg)
          | Responds r \<Rightarrow> bind (raise_for_status r) response_json,
          sent @ [req]))"
  by (simp add: APIClient_get_def AsyncClient_get_def bind_def Let_def split: outcome.splits)

section \<open>The operations and the requests they send\<close>

lemma invoke_closed:
  "is_closed (client self) \<Longrightarrow> invoke srv self op sent = (Inl ClientClosed, sent)"
  by (cases op)
     (simp_all add: returning_def list_data_sources_def get_data_source_def list_pipes_def
        get_pipe_def get_pipe_data_def run_select_query_def APIClient_get_closed bind_def)

lemma invoke_open:
  assumes "\<not> is_closed (client self)"
  shows "\<exists>endpoint ps.
           snd (invoke srv self op sent) =
             sent @ [\<lparr>req_method = GET, req_url = api_url self @ ''/'' @ endpoint,
                      req_params = AList.update ''token'' (JStr (token self)) ps,
                      req_headers = headers (client self),
                      req_timeout = timeout (client self)\<rparr>] \<and>
           (\<forall>r. srv sent \<lparr>req_method = GET, req_url = api_url self @ ''/'' @ endpoint,
                      req_params = AList.update ''token'' (JStr (token self)) ps,
                      req_headers = headers (client self),
                      req_timeout = timeout (client self)\<rparr> = Responds r \<and>
                \<not> (200 \<le> status_code r \<and> status_code r \<le> 299) \<longrightarrow>
                fst (invoke srv self op sent) = Inl (HTTPStatusError r))"
proof (cases op)
  case ListDataSources
  show ?thesis
    apply (rule exI[of _ "''v0/datasources''"])
    apply (rule exI[of _ "[(''attrs'', JStr ''id,name,description,columns'')]"])
    using assms ListDataSources
    by (auto simp: returning_def list_data_sources_def APIClient_get_open Let_def bind_def raise_for_status_def)
next
  case (GetDataSource i)
  show ?thesis
    apply (rule exI[of _ "''v0/datasources/'' @ i"])
    apply (rule exI[of _ "[(''debug'', JStr ''columns''), (''include_workspace_names'', JStr ''true'')]"])
    using assms GetDataSource
    by (auto simp: returning_def get_data_source_def APIClient_get_open Let_def bind_def raise_for_status_def)
next
  case ListPipes
  show ?thesis
    apply (rule exI[of _ "''v0/pipes''"])
    apply (rule exI[of _ "[(''attrs'', JStr ''id,name,description,type,endpoint'')]"])
    using assms ListPipes
    by (auto simp: returning_def list_pipes_def APIClient_get_open Let_def bind_def raise_for_status_def)
next
  case (GetPipe n)
  show ?thesis
    apply (rule exI[of _ "''v0/pipes/'' @ n"])
    apply (rule exI[of _ "[]"])
    using assms GetPipe
    by (auto simp: returning_def get_pipe_def APIClient_get_open Let_def bind_def raise_for_status_def)
next
  case (GetPipeData n kw)
  show ?thesis
    apply (rule exI[of _ "''v0/pipes/'' @ n @ ''.json''"])
    apply (rule exI[of _ kw])
    using assms GetPipeData
    by (auto simp: returning_def get_pipe_data_def APIClient_get_open Let_def bind_def raise_for_status_def)
next
  case (RunSelectQuery q)
  show ?thesis
    apply (rule exI[of _ "''v0/sql''"])
    apply (rule exI[of _ "[(''q'', JStr (q @ '' FORMAT JSON''))]"])
    using assms RunSelectQuery
    by (auto simp: returning_def run_select_query_def APIClient_get_open Let_def bind_def raise_for_status_def)
qed

lemma invoke_sends:
  "\<exists>new. snd (invoke srv self op sent) = sent @ new \<and>
         (\<not> is_closed (client self) \<longrightarrow> length new = 1) \<and>
         (\<forall>req \<in> set new.
            req_method req = GET \<and>
            (\<exists>endpoint. req_url req = api_url self @ ''/'' @ endpoint) \<and>
            map_of (req_params req) ''token'' = Some (JStr (token self)) \<and>
            req_headers req = headers (client self) \<and>
            req_timeout req = timeout (client self))"
proof (cases "is_closed (client self)")
  case True
  then show ?thesis by (simp add: invoke_closed)
next
  case False
  from invoke_open[OF False, of srv op sent] obtain endpoint ps where
    "snd (invoke srv self op sent) =
       sent @ [\<lparr>req_method = GET, req_url = api_url self @ ''/'' @ endpoint,
                req_params = AList.update ''token'' (JStr (token self)) ps,
                req_headers = headers (client self),
                req_timeout = timeout (client self)\<rparr>]"
    by blast
  then show ?thesis by (simp add: update_conv')
qed

lemma step_closed:
  "is_closed (client (fst st)) \<or> ev = Close \<or> ev = Exit \<Longrightarrow>
   is_closed (client (fst (step srv st ev)))"
  by (cases st; cases ev) (auto simp: close_def aexit_def aenter_def aclose_def)

lemma run_closed:
  "is_closed (client (fst st)) \<or> Close \<in> set evs \<or> Exit \<in> set evs \<Longrightarrow>
   is_closed (client (fst (run srv evs st)))"
proof (induction evs arbitrary: st)
  case Nil
  then show ?case by (simp add: run_def)
next
  case (Cons ev evs)
  have "is_closed (client (fst (step srv st ev))) \<or> Close \<in> set evs \<or> Exit \<in> set evs"
    using Cons.prems step_closed[of st ev srv] by auto
  from Cons.IH[OF this] show ?case by (simp add: run_def)
qed

lemma step_invariant:
  assumes "step srv (self, sent) ev = (self', sent')"
  shows "api_url self' = api_url self \<and> token self' = token self \<and>
         timeout (client self') = timeout (client self) \<and>
         headers (client self') = headers (client self) \<and>
         (\<exists>new. sent' = sent @ new \<and>
            (\<forall>req \<in> set new.
               req_method req = GET \<and>
               (\<exists>endpoint. req_url req = api_url self @ ''/'' @ endpoint) \<and>
               map_of (req_params req) ''token'' = Some (JStr (token self)) \<and>
               req_headers req = headers (client self) \<and>
               req_timeout req = timeout (client self)))"
proof (cases ev)
  case (Call op)
  with assms have "self' = self" and "sent' = snd (invoke srv self op sent)" by auto
  with invoke_sends[of srv self op sent] show ?thesis by auto
next
  case Close
  with assms show ?thesis by (auto simp: close_def aclose_def)
next
  case Enter
  with assms show ?thesis by (auto simp: aenter_def)
next
  case Exit
  with assms show ?thesis by (auto simp: aexit_def close_def aclose_def)
qed

lemma run_invariant:
  assumes "run srv evs (self, sent) = (self', sent')"
  shows "api_url self' = api_url self \<and> token self' = token self \<and>
         timeout (client self') = timeout (client self) \<and>
         headers (client self') = headers (client self) \<and>
         (\<exists>new. sent' = sent @ new \<and>
            (\<forall>req \<in> set new.
               req_method req = GET \<and>
               (\<exists>endpoint. req_url req = api_url self @ ''/'' @ endpoint) \<and>
               map_of (req_params req) ''token'' = Some (JStr (token self)) \<and>
               req_headers req = headers (client self) \<and>
               req_timeout req = timeout (client self)))"
  using assms
proof (induction evs arbitrary: self sent)
  case Nil
  then show ?case by (simp add: run_def)
next
  case (Cons ev evs)
  obtain self1 sent1 where s1: "step srv (self, sent) ev = (self1, sent1)"
    by (cases "step srv (self, sent) ev")
  with Cons.prems have r: "run srv evs (self1, sent1) = (self', sent')"
    by (simp add: run_def)
  from step_invariant[OF s1] obtain new1 where
    c1: "api_url self1 = api_url self" "token self1 = token self"
        "timeout (client self1) = timeout (client self)"
        "headers (client self1) = headers (client self)"
    and n1: "sent1 = sent @ new1"
    and q1: "\<forall>req \<in> set new1.
               req_method req = GET \<and>
               (\<exists>endpoint. req_url req = api_url self @ ''/'' @ endpoint) \<and>
               map_of (req_params req) ''token'' = Some (JStr (token self)) \<and>
               req_headers req = headers (client self) \<and>
               req_timeout req = timeout (client self)"
    by blast
  from Cons.IH[OF r] obtain new2 where
    c2: "api_url self' = api_url self1" "token self' = token self1"
        "timeout (client self') = timeout (client self1)"
        "headers (client self') = headers (client self1)"
    and n2: "sent' = sent1 @ new2"
    and q2: "\<forall>req \<in> set new2.
               req_method req = GET \<and>
               (\<exists>endpoint. req_url req = api_url self1 @ ''/'' @ endpoint) \<and>
               map_of (req_params req) ''token'' = Some (JStr (token self1)) \<and>
               req_headers req = headers (client self1) \<and>
               req_timeout req = timeout (client self1)"
    by blast
  have "sent' = sent @ (new1 @ new2)" using n1 n2 by simp
  moreover have "\<forall>req \<in> set (new1 @ new2).
               req_method req = GET \<and>
               (\<exists>endpoint. req_url req = api_url self @ ''/'' @ endpoint) \<and>
               map_of (req_params req) ''token'' = Some (JStr (token self)) \<and>
               req_headers req = headers (client self) \<and>
               req_timeout req = timeout (client self)"
    using q1 q2 c1 by auto
  ultimately show ?case using c1 c2 by metis
qed

section \<open>Building the records\<close>

lemma unexpected_iff: "unexpected fs kw \<longleftrightarrow> \<not> fst ` set kw \<subseteq> set fs"
  by (auto simp: unexpected_def)

lemma arg_Inr_iff: "arg kw f = Inr v \<longleftrightarrow> map_of kw f = Some v"
  by (simp add: arg_def split: option.splits)

lemma bind_Inr_iff: "bind m f = Inr y \<longleftrightarrow> (\<exists>x. m = Inr x \<and> f x = Inr y)"
  by (cases m) (simp_all add: bind_def)

lemma bind_Inr: "bind (Inr x) f = f x"
  by (simp add: bind_def)

lemma Pipe_init_Inr_iff:
  "Pipe_init kw = Inr p \<longleftrightarrow>
     fst ` set kw \<subseteq> set Pipe_fields \<and>
     map_of kw ''type'' = Some (p_type p) \<and> map_of kw ''id'' = Some (p_id p) \<and>
     map_of kw ''name'' = Some (p_name p) \<and> map_of kw ''description'' = Some (p_description p) \<and>
     map_of kw ''endpoint'' = Some (p_endpoint p) \<and> map_of kw ''url'' = Some (p_url p)"
  by (cases p) (auto simp: Pipe_init_def bind_Inr_iff arg_Inr_iff unexpected_iff)

lemma Pipe_init_error: "Pipe_init kw = Inl e \<Longrightarrow> e = TypeError"
  by (auto simp: Pipe_init_def bind_def arg_def split: if_splits option.splits)

lemma PipeData_init_Inr_iff:
  "PipeData_init kw = Inr d \<longleftrightarrow>
     fst ` set kw \<subseteq> set PipeData_fields \<and>
     map_of kw ''meta'' = Some (pd_meta d) \<and> map_of kw ''data'' = Some (pd_data d) \<and>
     map_of kw ''rows'' = Some (pd_rows d) \<and> map_of kw ''statistics'' = Some (pd_statistics d)"
  by (cases d) (auto simp: PipeData_init_def bind_Inr_iff arg_Inr_iff unexpected_iff)

lemma PipeData_init_error: "PipeData_init kw = Inl e \<Longrightarrow> e = TypeError"
  by (auto simp: PipeData_init_def bind_def arg_def split: if_splits option.splits)

lemma Engine_init_Inr_iff:
  "Engine_init kw = Inr e \<longleftrightarrow>
     fst ` set kw \<subseteq> set Engine_fields \<and>
     map_of kw ''engine'' = Some (eng_engine e) \<and>
     map_of kw ''engine_sorting_key'' = Some (eng_engine_sorting_key e) \<and>
     map_of kw ''engine_partition_key'' = Some (eng_engine_partition_key e) \<and>
     map_of kw ''engine_primary_key'' = Some (eng_engine_primary_key e)"
  by (cases e) (auto simp: Engine_init_def bind_Inr_iff arg_Inr_iff unexpected_iff)

lemma Engine_init_error: "Engine_init kw = Inl e \<Longrightarrow> e = TypeError"
  by (auto simp: Engine_init_def bind_def arg_def split: if_splits option.splits)

lemma Column_init_Inr_iff:
  "Column_init kw = Inr c \<longleftrightarrow>
     fst ` set kw \<subseteq> set Column_fields \<and>
     map_of kw ''name'' = Some (col_name c) \<and> map_of kw ''type'' = Some (col_type c) \<and>
     map_of kw ''codec'' = Some (col_codec c) \<and>
     map_of kw ''default_value'' = Some (col_default_value c) \<and>
     map_of kw ''jsonpath'' = Some (col_jsonpath c) \<and>
     map_of kw ''nullable'' = Some (col_nullable c) \<and>
     map_of kw ''normalized_name'' = Some (col_normalized_name c)"
  by (cases c) (auto simp: Column_init_def bind_Inr_iff arg_Inr_iff unexpected_iff)

lemma Column_init_error: "Column_init kw = Inl e \<Longrightarrow> e = TypeError"
  by (auto simp: Column_init_def bind_def arg_def split: if_splits option.splits)

lemma comprehension_Inr_iff:
  "comprehension f xs = Inr ys \<longleftrightarrow> list_all2 (\<lambda>x y. f x = Inr y) xs ys"
proof (induction xs arbitrary: ys)
  case Nil
  then show ?case by auto
next
  case (Cons x xs)
  show ?case
    by (auto simp: list_all2_Cons1 Cons.IH[symmetric] split: sum.splits)
qed

lemma comprehension_all:
  assumes "\<And>x. x \<in> set xs \<Longrightarrow> \<exists>y. f x = Inr y \<and> R x y"
  shows "\<exists>ys. comprehension f xs = Inr ys \<and> list_all2 R xs ys"
  using assms
proof (induction xs)
  case Nil
  then show ?case by simp
next
  case (Cons x xs)
  from Cons.prems[of x] obtain y where y: "f x = Inr y" "R x y" by auto
  from Cons.IH Cons.prems obtain ys where ys: "comprehension f xs = Inr ys" "list_all2 R xs ys"
    by auto
  from y ys show ?case by simp
qed

lemma key_present: "k \<in> fst ` set kvs \<Longrightarrow> \<exists>v. map_of kvs k = Some v"
  using map_of_eq_None_iff[of kvs k] by auto

lemma Engine_exact:
  assumes "fst ` set kvs = set Engine_fields"
  shows "\<exists>e. Engine_init kvs = Inr e \<and> spec_Engine_matches (JObj kvs) e"
proof -
  have "\<forall>f \<in> set Engine_fields. \<exists>v. map_of kvs f = Some v"
    using assms key_present[of _ kvs] by auto
  then obtain a1 a2 a3 a4 where
    "map_of kvs ''engine'' = Some a1" "map_of kvs ''engine_sorting_key'' = Some a2"
    "map_of kvs ''engine_partition_key'' = Some a3" "map_of kvs ''engine_primary_key'' = Some a4"
    by (auto simp: Engine_fields_def)
  then have "Engine_init kvs =
        Inr \<lparr>eng_engine = a1, eng_engine_sorting_key = a2, eng_engine_partition_key = a3,
             eng_engine_primary_key = a4\<rparr> \<and>
      spec_Engine_matches (JObj kvs)
        \<lparr>eng_engine = a1, eng_engine_sorting_key = a2, eng_engine_partition_key = a3,
         eng_engine_primary_key = a4\<rparr>"
    using assms by (simp add: Engine_init_Inr_iff spec_Engine_matches_def)
  then show ?thesis by blast
qed

lemma Column_exact:
  assumes "fst ` set kvs = set Column_fields"
  shows "\<exists>c. Column_init kvs = Inr c \<and> spec_Column_matches (JObj kvs) c"
proof -
  have "\<forall>f \<in> set Column_fields. \<exists>v. map_of kvs f = Some v"
    using assms key_present[of _ kvs] by auto
  then obtain a1 a2 a3 a4 a5 a6 a7 where
    "map_of kvs ''name'' = Some a1" "map_of kvs ''type'' = Some a2"
    "map_of kvs ''codec'' = Some a3" "map_of kvs ''default_value'' = Some a4"
    "map_of kvs ''jsonpath'' = Some a5" "map_of kvs ''nullable'' = Some a6"
    "map_of kvs ''normalized_name'' = Some a7"
    by (auto simp: Column_fields_def)
  then have "Column_init kvs =
        Inr \<lparr>col_name = a1, col_type = a2, col_codec = a3, col_default_value = a4,
             col_jsonpath = a5, col_nullable = a6, col_normalized_name = a7\<rparr> \<and>
      spec_Column_matches (JObj kvs)
        \<lparr>col_name = a1, col_type = a2, col_codec = a3, col_default_value = a4,
         col_jsonpath = a5, col_nullable = a6, col_normalized_name = a7\<rparr>"
    using assms by (simp add: Column_init_Inr_iff spec_Column_matches_def)
  then show ?thesis by blast
qed

lemma Pipe_exact:
  assumes "fst ` set kvs = set Pipe_fields"
  shows "\<exists>p. Pipe_from_dict (JObj kvs) = Inr p \<and> spec_Pipe_matches (JObj kvs) p"
proof -
  have "\<forall>f \<in> set Pipe_fields. \<exists>v. map_of kvs f = Some v"
    using assms key_present[of _ kvs] by auto
  then obtain a1 a2 a3 a4 a5 a6 where
    "map_of kvs ''type'' = Some a1" "map_of kvs ''id'' = Some a2"
    "map_of kvs ''name'' = Some a3" "map_of kvs ''description'' = Some a4"
    "map_of kvs ''endpoint'' = Some a5" "map_of kvs ''url'' = Some a6"
    by (auto simp: Pipe_fields_def)
  then have "Pipe_from_dict (JObj kvs) =
        Inr \<lparr>p_type = a1, p_id = a2, p_name = a3, p_description = a4,
             p_endpoint = a5, p_url = a6\<rparr> \<and>
      spec_Pipe_matches (JObj kvs)
        \<lparr>p_type = a1, p_id = a2, p_name = a3, p_description = a4,
         p_endpoint = a5, p_url = a6\<rparr>"
    using assms by (simp add: Pipe_from_dict_def bind_Inr Pipe_init_Inr_iff spec_Pipe_matches_def)
  then show ?thesis by blast
qed

lemma PipeData_exact:
  assumes "fst ` set kvs = set PipeData_fields"
  shows "\<exists>d. PipeData_from_dict (JObj kvs) = Inr d \<and> spec_PipeData_matches (JObj kvs) d"
proof -
  have "\<forall>f \<in> set PipeData_fields. \<exists>v. map_of kvs f = Some v"
    using assms key_present[of _ kvs] by auto
  then obtain a1 a2 a3 a4 where
    "map_of kvs ''meta'' = Some a1" "map_of kvs ''data'' = Some a2"
    "map_of kvs ''rows'' = Some a3" "map_of kvs ''statistics'' = Some a4"
    by (auto simp: PipeData_fields_def)
  then have "PipeData_from_dict (JObj kvs) =
        Inr \<lparr>pd_meta = a1, pd_data = a2, pd_rows = a3, pd_statistics = a4\<rparr> \<and>
      spec_PipeData_matches (JObj kvs)
        \<lparr>pd_meta = a1, pd_data = a2, pd_rows = a3, pd_statistics = a4\<rparr>"
    using assms
    by (simp add: PipeData_from_dict_def bind_Inr PipeData_init_Inr_iff spec_PipeData_matches_def)
  then show ?thesis by blast
qed

lemma columns_exact:
  assumes "list_all (spec_has_exactly Column_fields) cs"
  shows "\<exists>cols. comprehension (\<lambda>col. bind (unpack col) Column_init) cs = Inr cols \<and>
               list_all2 spec_Column_matches cs cols"
proof (rule comprehension_all)
  fix x assume "x \<in> set cs"
  with assms have "spec_has_exactly Column_fields x" by (simp add: list_all_iff)
  then obtain kvs where x: "x = JObj kvs" and k: "fst ` set kvs = set Column_fields"
    by (cases x) (auto simp: spec_has_exactly_def)
  from Column_exact[OF k] show "\<exists>y. bind (unpack x) Column_init = Inr y \<and> spec_Column_matches x y"
    by (simp add: x bind_Inr)
qed

lemma well_formed_from_dict:
  assumes "spec_well_formed_datasource j"
  shows "\<exists>d. DataSource_from_dict j = Inr d \<and> spec_DataSource_matches j d"
proof -
  from assms have g: "\<forall>f \<in> set DataSource_fields. \<exists>v. getitem j f = Inr v"
    by (auto simp: spec_well_formed_datasource_def list_all_iff dest: sum.collapse(2)[symmetric])
  then obtain a1 a2 e cs a3 a4 a5 where gi:
    "getitem j ''id'' = Inr a1" "getitem j ''name'' = Inr a2" "getitem j ''engine'' = Inr e"
    "getitem j ''columns'' = Inr cs" "getitem j ''indexes'' = Inr a3"
    "getitem j ''new_columns_detected'' = Inr a4" "getitem j ''quarantine_rows'' = Inr a5"
    by (auto simp: DataSource_fields_def)
  from assms gi have "spec_has_exactly Engine_fields e"
    by (simp add: spec_well_formed_datasource_def)
  then obtain ekw where e: "e = JObj ekw" and ek: "fst ` set ekw = set Engine_fields"
    by (cases e) (auto simp: spec_has_exactly_def)
  from Engine_exact[OF ek] obtain eng
    where eng: "Engine_init ekw = Inr eng" "spec_Engine_matches (JObj ekw) eng" by blast
  from assms gi obtain xs where cs: "cs = JList xs"
    and xs: "list_all (spec_has_exactly Column_fields) xs"
    by (cases cs) (auto simp: spec_well_formed_datasource_def)
  from columns_exact[OF xs] obtain cols where
    cols: "comprehension (\<lambda>col. bind (unpack col) Column_init) xs = Inr cols"
          "list_all2 spec_Column_matches xs cols" by blast
  let ?d = "\<lparr>ds_id = a1, ds_name = a2, ds_engine = eng, ds_columns = cols,
          ds_indexes = a3, ds_new_columns_detected = a4, ds_quarantine_rows = a5\<rparr>"
  have "DataSource_from_dict j = Inr ?d"
    by (simp add: DataSource_from_dict_def gi e cs eng cols bind_Inr)
  moreover have "spec_DataSource_matches j ?d"
    by (simp add: spec_DataSource_matches_def gi e cs eng cols)
  ultimately show ?thesis by blast
qed

lemma DataSource_from_dict_reads_every_field:
  assumes "DataSource_from_dict j = Inr d" and "f \<in> set DataSource_fields"
  shows "\<exists>v. getitem j f = Inr v"
  using assms
  by (auto simp: DataSource_from_dict_def DataSource_fields_def bind_Inr_iff)

lemma DataSource_from_dict_cong:
  assumes "\<forall>f \<in> set DataSource_fields. map_of kvs' f = map_of kvs f"
  shows "DataSource_from_dict (JObj kvs') = DataSource_from_dict (JObj kvs)"
  using assms by (simp add: DataSource_from_dict_def DataSource_fields_def)

lemma Column_init_missing:
  assumes "f \<in> set Column_fields" and "f \<notin> fst ` set kvs"
  shows "Column_init kvs = Inl TypeError"
proof (cases "Column_init kvs")
  case (Inl e)
  then show ?thesis using Column_init_error by simp
next
  case (Inr c)
  then have "\<forall>g \<in> set Column_fields. map_of kvs g \<noteq> None"
    by (simp add: Column_init_Inr_iff Column_fields_def)
  with assms show ?thesis by (simp add: map_of_eq_None_iff)
qed

lemma Engine_init_missing:
  assumes "f \<in> set Engine_fields" and "f \<notin> fst ` set kvs"
  shows "Engine_init kvs = Inl TypeError"
proof (cases "Engine_init kvs")
  case (Inl e)
  then show ?thesis using Engine_init_error by simp
next
  case (Inr c)
  then have "\<forall>g \<in> set Engine_fields. map_of kvs g \<noteq> None"
    by (simp add: Engine_init_Inr_iff Engine_fields_def)
  with assms show ?thesis by (simp add: map_of_eq_None_iff)
qed

lemma Pipe_init_missing:
  assumes "f \<in> set Pipe_fields" and "f \<notin> fst ` set kvs"
  shows "Pipe_init kvs = Inl TypeError"
proof (cases "Pipe_init kvs")
  case (Inl e)
  then show ?thesis using Pipe_init_error by simp
next
  case (Inr c)
  then have "\<forall>g \<in> set Pipe_fields. map_of kvs g \<noteq> None"
    by (simp add: Pipe_init_Inr_iff Pipe_fields_def)
  with assms show ?thesis by (simp add: map_of_eq_None_iff)
qed

lemma PipeData_init_missing:
  assumes "f \<in> set PipeData_fields" and "f \<notin> fst ` set kvs"
  shows "PipeData_init kvs = Inl TypeError"
proof (cases "PipeData_init kvs")
  case (Inl e)
  then show ?thesis using PipeData_init_error by simp
next
  case (Inr c)
  then have "\<forall>g \<in> set PipeData_fields. map_of kvs g \<noteq> None"
    by (simp add: PipeData_init_Inr_iff PipeData_fields_def)
  with assms show ?thesis by (simp add: map_of_eq_None_iff)
qed

lemma DataSource_from_dict_missing:
  assumes "f \<in> set DataSource_fields" and "f \<notin> fst ` set kvs"
  shows "isl (DataSource_from_dict (JObj kvs))"
proof (cases "DataSource_from_dict (JObj kvs)")
  case (Inl e)
  then show ?thesis by simp
next
  case (Inr d)
  from DataSource_from_dict_reads_every_field[OF Inr assms(1)]
  have "map_of kvs f \<noteq> None" by (auto split: option.splits)
  with assms(2) show ?thesis by (simp add: map_of_eq_None_iff)
qed

lemma init_unexpected:
  assumes "k \<in> fst ` set kvs"
  shows "k \<notin> set Column_fields \<Longrightarrow> Column_init kvs = Inl TypeError"
    and "k \<notin> set Engine_fields \<Longrightarrow> Engine_init kvs = Inl TypeError"
    and "k \<notin> set Pipe_fields \<Longrightarrow> Pipe_init kvs = Inl TypeError"
    and "k \<notin> set PipeData_fields \<Longrightarrow> PipeData_init kvs = Inl TypeError"
  using assms
  by (auto simp: Column_init_def Engine_init_def Pipe_init_def PipeData_init_def unexpected_iff)

lemma in_set_update_other:
  "k' \<noteq> k \<Longrightarrow> (k', v') \<in> set al \<Longrightarrow> (k', v') \<in> set (AList.update k v al)"
  by (induction al) auto

lemma map_of_Some_key: "map_of kvs k = Some v \<Longrightarrow> k \<in> fst ` set kvs"
  by (auto dest: map_of_SomeD intro: rev_image_eqI)

lemma Pipe_from_dict_error: "Pipe_from_dict j = Inl e \<Longrightarrow> e = TypeError"
  by (cases j) (auto simp: Pipe_from_dict_def bind_def dest: Pipe_init_error)

lemma PipeData_from_dict_error: "PipeData_from_dict j = Inl e \<Longrightarrow> e = TypeError"
  by (cases j) (auto simp: PipeData_from_dict_def bind_def dest: PipeData_init_error)

lemma Pipe_from_dict_Inr_exact:
  assumes "Pipe_from_dict j = Inr p"
  shows "spec_has_exactly Pipe_fields j"
proof -
  from assms obtain kvs where j: "j = JObj kvs" and i: "Pipe_init kvs = Inr p"
    by (cases j) (auto simp: Pipe_from_dict_def bind_def)
  from i have sub: "fst ` set kvs \<subseteq> set Pipe_fields"
    and "\<forall>f \<in> set Pipe_fields. \<exists>v. map_of kvs f = Some v"
    by (simp_all add: Pipe_init_Inr_iff Pipe_fields_def)
  then have "set Pipe_fields \<subseteq> fst ` set kvs"
    using map_of_Some_key[of kvs] by blast
  with sub show ?thesis by (simp add: j spec_has_exactly_def)
qed

lemma PipeData_from_dict_Inr_exact:
  assumes "PipeData_from_dict j = Inr d"
  shows "spec_has_exactly PipeData_fields j"
proof -
  from assms obtain kvs where j: "j = JObj kvs" and i: "PipeData_init kvs = Inr d"
    by (cases j) (auto simp: PipeData_from_dict_def bind_def)
  from i have sub: "fst ` set kvs \<subseteq> set PipeData_fields"
    and "\<forall>f \<in> set PipeData_fields. \<exists>v. map_of kvs f = Some v"
    by (simp_all add: PipeData_init_Inr_iff PipeData_fields_def)
  then have "set PipeData_fields \<subseteq> fst ` set kvs"
    using map_of_Some_key[of kvs] by blast
  with sub show ?thesis by (simp add: j spec_has_exactly_def)
qed

lemma PipeData_from_dict_exact:
  assumes "spec_has_exactly PipeData_fields j"
  shows "\<exists>d. PipeData_from_dict j = Inr d \<and> spec_PipeData_matches j d"
proof -
  from assms obtain kvs where j: "j = JObj kvs" and k: "fst ` set kvs = set PipeData_fields"
    by (cases j) (auto simp: spec_has_exactly_def)
  from PipeData_exact[OF k] show ?thesis by (simp add: j)
qed

lemma PipeData_from_dict_not_exact:
  assumes "\<not> spec_has_exactly PipeData_fields j"
  shows "PipeData_from_dict j = Inl TypeError"
proof (cases "PipeData_from_dict j")
  case (Inl e)
  then show ?thesis using PipeData_from_dict_error by simp
next
  case (Inr d)
  with assms show ?thesis using PipeData_from_dict_Inr_exact by blast
qed

lemma comprehension_Inl:
  "comprehension f xs = Inl e \<Longrightarrow> \<exists>x \<in> set xs. f x = Inl e"
  by (induction xs) (auto split: sum.splits)

lemma pipes_exact:
  assumes "list_all (spec_has_exactly Pipe_fields) entries"
  shows "\<exists>ps. comprehension Pipe_from_dict entries = Inr ps \<and>
              list_all2 spec_Pipe_matches entries ps"
proof (rule comprehension_all)
  fix x assume "x \<in> set entries"
  with assms have "spec_has_exactly Pipe_fields x" by (simp add: list_all_iff)
  then obtain kvs where x: "x = JObj kvs" and k: "fst ` set kvs = set Pipe_fields"
    by (cases x) (auto simp: spec_has_exactly_def)
  from Pipe_exact[OF k] show "\<exists>y. Pipe_from_dict x = Inr y \<and> spec_Pipe_matches x y"
    by (simp add: x)
qed

lemma pipes_not_exact:
  assumes "\<not> list_all (spec_has_exactly Pipe_fields) entries"
  shows "comprehension Pipe_from_dict entries = Inl TypeError"
proof (cases "comprehension Pipe_from_dict entries")
  case (Inl e)
  from comprehension_Inl[OF Inl] obtain x where "Pipe_from_dict x = Inl e" by blast
  then have "e = TypeError" by (rule Pipe_from_dict_error)
  with Inl show ?thesis by simp
next
  case (Inr ps)
  then have "list_all2 (\<lambda>x y. Pipe_from_dict x = Inr y) entries ps"
    by (simp add: comprehension_Inr_iff)
  then have "\<forall>x \<in> set entries. \<exists>y. Pipe_from_dict x = Inr y"
    by (auto simp: list_all2_conv_all_nth in_set_conv_nth)
  then have "list_all (spec_has_exactly Pipe_fields) entries"
    by (auto simp: list_all_iff dest: Pipe_from_dict_Inr_exact)
  with assms show ?thesis by simp
qed

section \<open>The claims\<close>

text \<open>
  C1. Whatever parameter mapping \<open>_get\<close> is given (none, or one that already has a
  \<open>token\<close> key), and whichever of the six operations is called (the keyword arguments of
  \<open>get_pipe_data\<close> included), every request that is sent has the parameter \<open>token\<close>
  set to the client's token; an open client sends exactly one request, so the parameter is
  there on every request and a caller's value under that key is replaced without an error.
\<close>

theorem every_request_carries_client_token:
  "(\<exists>new. snd (APIClient_get srv self endpoint params sent) = sent @ new \<and>
          (\<not> is_closed (client self) \<longrightarrow> length new = 1) \<and>
          (\<forall>req \<in> set new. map_of (req_params req) ''token'' = Some (JStr (token self)))) \<and>
   (\<exists>new. snd (invoke srv self op sent) = sent @ new \<and>
          (\<not> is_closed (client self) \<longrightarrow> length new = 1) \<and>
          (\<forall>req \<in> set new. map_of (req_params req) ''token'' = Some (JStr (token self))))"
proof
  show "\<exists>new. snd (APIClient_get srv self endpoint params sent) = sent @ new \<and>
          (\<not> is_closed (client self) \<longrightarrow> length new = 1) \<and>
          (\<forall>req \<in> set new. map_of (req_params req) ''token'' = Some (JStr (token self)))"
    by (cases "is_closed (client self)")
       (simp_all add: APIClient_get_closed APIClient_get_open Let_def update_conv')
next
  from invoke_sends[of srv self op sent]
  show "\<exists>new. snd (invoke srv self op sent) = sent @ new \<and>
          (\<not> is_closed (client self) \<longrightarrow> length new = 1) \<and>
          (\<forall>req \<in> set new. map_of (req_params req) ''token'' = Some (JStr (token self)))"
    by blast
qed

theorem every_request_carries_client_token_witness:
  "\<not> is_closed (client (APIClient_init ''https://api.example.test'' ''tok'')) \<and>
   snd (invoke (\<lambda>sent req. Fails ''unreachable'')
          (APIClient_init ''https://api.example.test'' ''tok'')
          (GetPipeData ''p'' [(''token'', JStr ''mine''), (''year'', JInt 2024)]) []) =
     [\<lparr>req_method = GET, req_url = ''https://api.example.test/v0/pipes/p.json'',
       req_params = [(''token'', JStr ''tok''), (''year'', JInt 2024)],
       req_headers = [(''Accept'', ''application/json''), (''User-Agent'', ''Python/APIClient'')],
       req_timeout = 30\<rparr>] \<and>
   map_of [(''token'', JStr ''tok''), (''year'', JInt 2024)] ''token'' = Some (JStr ''tok'')"
  using every_request_carries_client_token
     [of "\<lambda>sent req. Fails ''unreachable''" "APIClient_init ''https://api.example.test'' ''tok''"
         "''v0/pipes/p.json''" "Some [(''token'', JStr ''mine''), (''year'', JInt 2024)]" "[]"
         "GetPipeData ''p'' [(''token'', JStr ''mine''), (''year'', JInt 2024)]"]
  by (simp add: APIClient_init_def AsyncClient_init_def rstrip_def returning_def get_pipe_data_def
      APIClient_get_def AsyncClient_get_def bind_def)

text \<open>
  C2. For each of the six operations on an open client: exactly one request is sent (there
  is no retry), and when the answer to it has a status outside 200..299 the operation ends
  with \<open>HTTPStatusError\<close> carrying that very response (status code and body), not with any
  other error.
\<close>

theorem non_success_status_raises_HTTPStatusError:
  assumes "\<not> is_closed (client self)"
  shows "\<exists>req. snd (invoke srv self op sent) = sent @ [req] \<and>
           (\<forall>r. srv sent req = Responds r \<and> \<not> (200 \<le> status_code r \<and> status_code r \<le> 299) \<longrightarrow>
                fst (invoke srv self op sent) = Inl (HTTPStatusError r))"
  using invoke_open[OF assms, of srv op sent] by blast

theorem non_success_status_witness:
  "invoke (\<lambda>sent req. Responds \<lparr>status_code = 404, content = ''Not Found'', json_body = None\<rparr>)
     (APIClient_init ''https://api.example.test'' ''tok'') (GetPipe ''nope'') [] =
   (Inl (HTTPStatusError \<lparr>status_code = 404, content = ''Not Found'', json_body = None\<rparr>),
    [\<lparr>req_method = GET, req_url = ''https://api.example.test/v0/pipes/nope'',
      req_params = [(''token'', JStr ''tok'')],
      req_headers = [(''Accept'', ''application/json''), (''User-Agent'', ''Python/APIClient'')],
      req_timeout = 30\<rparr>])"
proof -
  let ?srv = "\<lambda>(sent :: request list) (req :: request).
                Responds \<lparr>status_code = 404, content = ''Not Found'', json_body = None\<rparr>"
  let ?c = "APIClient_init ''https://api.example.test'' ''tok''"
  have op: "\<not> is_closed (client ?c)"
    by (simp add: APIClient_init_def AsyncClient_init_def)
  from non_success_status_raises_HTTPStatusError[OF op, of ?srv "GetPipe ''nope''" "[]"]
  obtain req where s: "snd (invoke ?srv ?c (GetPipe ''nope'') []) = [req]"
    and f: "fst (invoke ?srv ?c (GetPipe ''nope'') []) =
              Inl (HTTPStatusError \<lparr>status_code = 404, content = ''Not Found'', json_body = None\<rparr>)"
    by auto
  have "snd (invoke ?srv ?c (GetPipe ''nope'') []) =
    [\<lparr>req_method = GET, req_url = ''https://api.example.test/v0/pipes/nope'',
      req_params = [(''token'', JStr ''tok'')],
      req_headers = [(''Accept'', ''application/json''), (''User-Agent'', ''Python/APIClient'')],
      req_timeout = 30\<rparr>]"
    by (simp add: APIClient_init_def AsyncClient_init_def rstrip_def returning_def get_pipe_def
      APIClient_get_def AsyncClient_get_def bind_def)
  with f show ?thesis by (simp add: prod_eq_iff)
qed

text \<open>
  C3, as the code has it. For each of the five record types, building the record from a
  JSON object fails when a field of the record is not a key of the object. Keys that are
  not fields are passed over only by \<open>DataSource.from_dict\<close>, which reads its seven keys
  and nothing else, so two objects that agree on those keys give the same outcome.
  \<open>Pipe\<close>, \<open>PipeData\<close>, \<open>Engine\<close> and \<open>Column\<close> are built by keyword unpacking: one
  key that is not a field makes the construction fail with \<open>TypeError\<close>, and an object
  whose keys are exactly the fields gives the record with those values. A well-formed
  data source entry gives a \<open>DataSource\<close> whose fields are the entry's values.
\<close>

theorem record_construction_and_fields:
  "(f \<in> set Column_fields \<and> f \<notin> fst ` set kvs \<longrightarrow> Column_init kvs = Inl TypeError) \<and>
   (f \<in> set Engine_fields \<and> f \<notin> fst ` set kvs \<longrightarrow> Engine_init kvs = Inl TypeError) \<and>
   (f \<in> set Pipe_fields \<and> f \<notin> fst ` set kvs \<longrightarrow> Pipe_from_dict (JObj kvs) = Inl TypeError) \<and>
   (f \<in> set PipeData_fields \<and> f \<notin> fst ` set kvs \<longrightarrow>
      PipeData_from_dict (JObj kvs) = Inl TypeError) \<and>
   (f \<in> set DataSource_fields \<and> f \<notin> fst ` set kvs \<longrightarrow>
      isl (DataSource_from_dict (JObj kvs))) \<and>
   (k \<in> fst ` set kvs \<and> k \<notin> set Column_fields \<longrightarrow> Column_init kvs = Inl TypeError) \<and>
   (k \<in> fst ` set kvs \<and> k \<notin> set Engine_fields \<longrightarrow> Engine_init kvs = Inl TypeError) \<and>
   (k \<in> fst ` set kvs \<and> k \<notin> set Pipe_fields \<longrightarrow> Pipe_from_dict (JObj kvs) = Inl TypeError) \<and>
   (k \<in> fst ` set kvs \<and> k \<notin> set PipeData_fields \<longrightarrow>
      PipeData_from_dict (JObj kvs) = Inl TypeError) \<and>
   ((\<forall>g \<in> set DataSource_fields. map_of kvs' g = map_of kvs g) \<longrightarrow>
      DataSource_from_dict (JObj kvs') = DataSource_from_dict (JObj kvs)) \<and>
   (fst ` set kvs = set Column_fields \<longrightarrow>
      (\<exists>c. Column_init kvs = Inr c \<and> spec_Column_matches (JObj kvs) c)) \<and>
   (fst ` set kvs = set Engine_fields \<longrightarrow>
      (\<exists>e. Engine_init kvs = Inr e \<and> spec_Engine_matches (JObj kvs) e)) \<and>
   (fst ` set kvs = set Pipe_fields \<longrightarrow>
      (\<exists>p. Pipe_from_dict (JObj kvs) = Inr p \<and> spec_Pipe_matches (JObj kvs) p)) \<and>
   (fst ` set kvs = set PipeData_fields \<longrightarrow>
      (\<exists>d. PipeData_from_dict (JObj kvs) = Inr d \<and> spec_PipeData_matches (JObj kvs) d)) \<and>
   (spec_well_formed_datasource (JObj kvs) \<longrightarrow>
      (\<exists>d. DataSource_from_dict (JObj kvs) = Inr d \<and> spec_DataSource_matches (JObj kvs) d))"
proof (intro conjI impI; (elim conjE)?)
  show "Column_init kvs = Inl TypeError" if "f \<in> set Column_fields" "f \<notin> fst ` set kvs"
    using that by (rule Column_init_missing)
  show "Engine_init kvs = Inl TypeError" if "f \<in> set Engine_fields" "f \<notin> fst ` set kvs"
    using that by (rule Engine_init_missing)
  show "Pipe_from_dict (JObj kvs) = Inl TypeError" if "f \<in> set Pipe_fields" "f \<notin> fst ` set kvs"
    using Pipe_init_missing[OF that] by (simp add: Pipe_from_dict_def bind_Inr)
  show "PipeData_from_dict (JObj kvs) = Inl TypeError"
    if "f \<in> set PipeData_fields" "f \<notin> fst ` set kvs"
    using PipeData_init_missing[OF that] by (simp add: PipeData_from_dict_def bind_Inr)
  show "isl (DataSource_from_dict (JObj kvs))"
    if "f \<in> set DataSource_fields" "f \<notin> fst ` set kvs"
    using that by (rule DataSource_from_dict_missing)
  show "Column_init kvs = Inl TypeError" if "k \<in> fst ` set kvs" "k \<notin> set Column_fields"
    using that by (rule init_unexpected)
  show "Engine_init kvs = Inl TypeError" if "k \<in> fst ` set kvs" "k \<notin> set Engine_fields"
    using that by (rule init_unexpected)
  show "Pipe_from_dict (JObj kvs) = Inl TypeError" if "k \<in> fst ` set kvs" "k \<notin> set Pipe_fields"
    using init_unexpected(3)[OF that] by (simp add: Pipe_from_dict_def bind_Inr)
  show "PipeData_from_dict (JObj kvs) = Inl TypeError"
    if "k \<in> fst ` set kvs" "k \<notin> set PipeData_fields"
    using init_unexpected(4)[OF that] by (simp add: PipeData_from_dict_def bind_Inr)
  show "DataSource_from_dict (JObj kvs') = DataSource_from_dict (JObj kvs)"
    if "\<forall>g \<in> set DataSource_fields. map_of kvs' g = map_of kvs g"
    using that by (rule DataSource_from_dict_cong)
  show "\<exists>c. Column_init kvs = Inr c \<and> spec_Column_matches (JObj kvs) c"
    if "fst ` set kvs = set Column_fields"
    using that by (rule Column_exact)
  show "\<exists>e. Engine_init kvs = Inr e \<and> spec_Engine_matches (JObj kvs) e"
    if "fst ` set kvs = set Engine_fields"
    using that by (rule Engine_exact)
  show "\<exists>p. Pipe_from_dict (JObj kvs) = Inr p \<and> spec_Pipe_matches (JObj kvs) p"
    if "fst ` set kvs = set Pipe_fields"
    using that by (rule Pipe_exact)
  show "\<exists>d. PipeData_from_dict (JObj kvs) = Inr d \<and> spec_PipeData_matches (JObj kvs) d"
    if "fst ` set kvs = set PipeData_fields"
    using that by (rule PipeData_exact)
  show "\<exists>d. DataSource_from_dict (JObj kvs) = Inr d \<and> spec_DataSource_matches (JObj kvs) d"
    if "spec_well_formed_datasource (JObj kvs)"
    using that by (rule well_formed_from_dict)
qed

theorem record_construction_witness:
  "Pipe_from_dict (JObj [(''type'', JStr ''endpoint''), (''id'', JStr ''t_1''), (''name'', JStr ''p''),
      (''description'', JNull), (''endpoint'', JNull)]) = Inl TypeError \<and>
   DataSource_from_dict (JObj [(''description'', JStr ''about''), (''id'', JStr ''t_1''),
      (''name'', JStr ''events''),
      (''engine'', JObj [(''engine'', JStr ''MergeTree''), (''engine_sorting_key'', JStr ''id''),
         (''engine_partition_key'', JStr ''day''), (''engine_primary_key'', JNull)]),
      (''columns'', JList []), (''indexes'', JList []), (''new_columns_detected'', JObj []),
      (''quarantine_rows'', JInt 0)]) =
   DataSource_from_dict (JObj [(''id'', JStr ''t_1''),
      (''name'', JStr ''events''),
      (''engine'', JObj [(''engine'', JStr ''MergeTree''), (''engine_sorting_key'', JStr ''id''),
         (''engine_partition_key'', JStr ''day''), (''engine_primary_key'', JNull)]),
      (''columns'', JList []), (''indexes'', JList []), (''new_columns_detected'', JObj []),
      (''quarantine_rows'', JInt 0)])"
  using record_construction_and_fields
    [where f = "''url''"
       and kvs = "[(''type'', JStr ''endpoint''), (''id'', JStr ''t_1''), (''name'', JStr ''p''),
                   (''description'', JNull), (''endpoint'', JNull)]"]
        record_construction_and_fields
    [where kvs' = "[(''description'', JStr ''about''), (''id'', JStr ''t_1''),
      (''name'', JStr ''events''),
      (''engine'', JObj [(''engine'', JStr ''MergeTree''), (''engine_sorting_key'', JStr ''id''),
         (''engine_partition_key'', JStr ''day''), (''engine_primary_key'', JNull)]),
      (''columns'', JList []), (''indexes'', JList []), (''new_columns_detected'', JObj []),
      (''quarantine_rows'', JInt 0)]"
       and kvs = "[(''id'', JStr ''t_1''),
      (''name'', JStr ''events''),
      (''engine'', JObj [(''engine'', JStr ''MergeTree''), (''engine_sorting_key'', JStr ''id''),
         (''engine_partition_key'', JStr ''day''), (''engine_primary_key'', JNull)]),
      (''columns'', JList []), (''indexes'', JList []), (''new_columns_detected'', JObj []),
      (''quarantine_rows'', JInt 0)]"]
  by (simp add: Pipe_fields_def DataSource_fields_def)

text \<open>
  C3 as stated fails: a \<open>Pipe\<close> object with all six fields is accepted, and the same
  object with one more key is rejected instead of having that key ignored.
\<close>

theorem extra_field_not_ignored_counterexample:
  "Pipe_from_dict (JObj [(''type'', JStr ''endpoint''), (''id'', JStr ''t_1''), (''name'', JStr ''p''),
      (''description'', JNull), (''endpoint'', JNull), (''url'', JStr ''u'')]) =
     Inr \<lparr>p_type = JStr ''endpoint'', p_id = JStr ''t_1'', p_name = JStr ''p'',
          p_description = JNull, p_endpoint = JNull, p_url = JStr ''u''\<rparr> \<and>
   Pipe_from_dict (JObj [(''type'', JStr ''endpoint''), (''id'', JStr ''t_1''), (''name'', JStr ''p''),
      (''description'', JNull), (''endpoint'', JNull), (''url'', JStr ''u''),
      (''extra'', JInt 1)]) = Inl TypeError"
  by (simp add: Pipe_from_dict_def Pipe_init_def unexpected_def Pipe_fields_def bind_def arg_def)

text \<open>
  C4. On an open client, \<open>run_select_query query\<close> sends exactly one request: a GET to
  \<open>{api_url}/v0/sql\<close> whose parameter \<open>q\<close> is the query with the suffix
  \<open>" FORMAT JSON"\<close> appended and nothing else done to it (beside it only the token). When
  the answer is a 2xx response with a JSON body, that decoded body is the result.
\<close>

theorem run_select_query_sends_suffixed_query:
  fixes srv :: server
  defines "req self query \<equiv>
     \<lparr>req_method = GET, req_url = api_url self @ ''/v0/sql'',
      req_params = [(''q'', JStr (query @ '' FORMAT JSON'')), (''token'', JStr (token self))],
      req_headers = headers (client self), req_timeout = timeout (client self)\<rparr>"
  assumes "\<not> is_closed (client self)"
  shows "snd (run_select_query srv self query sent) = sent @ [req self query] \<and>
         (\<forall>r j. srv sent (req self query) = Responds r \<and>
                200 \<le> status_code r \<and> status_code r \<le> 299 \<and> json_body r = Some j \<longrightarrow>
                fst (run_select_query srv self query sent) = Inr j)"
  using assms
  by (auto simp: run_select_query_def APIClient_get_open Let_def bind_def raise_for_status_def
      response_json_def)

theorem run_select_query_witness:
  "run_select_query
     (\<lambda>sent req. Responds \<lparr>status_code = 200, content = ''[1]'', json_body = Some (JList [JInt 1])\<rparr>)
     (APIClient_init ''https://api.example.test/'' ''tok'') ''SELECT 1'' [] =
   (Inr (JList [JInt 1]),
    [\<lparr>req_method = GET, req_url = ''https://api.example.test/v0/sql'',
      req_params = [(''q'', JStr ''SELECT 1 FORMAT JSON''), (''token'', JStr ''tok'')],
      req_headers = [(''Accept'', ''application/json''), (''User-Agent'', ''Python/APIClient'')],
      req_timeout = 30\<rparr>])"
  using run_select_query_sends_suffixed_query
     [of "APIClient_init ''https://api.example.test/'' ''tok''"
         "\<lambda>sent req. Responds \<lparr>status_code = 200, content = ''[1]'', json_body = Some (JList [JInt 1])\<rparr>"
         "''SELECT 1''" "[]"]
  by (simp add: APIClient_init_def AsyncClient_init_def rstrip_def prod_eq_iff)



text \<open>
  C6. On an open client and for every identifier string (nothing is checked locally),
  \<open>get_data_source\<close> sends exactly one request: a GET to
  \<open>{api_url}/v0/datasources/{id}\<close> with \<open>debug=columns\<close>,
  \<open>include_workspace_names=true\<close> and the client's token. When the answer is a 2xx
  response with a JSON body, the decoded body is returned as it is.
\<close>

theorem get_data_source_request_and_result:
  fixes srv :: server
  defines "req self i \<equiv>
     \<lparr>req_method = GET, req_url = api_url self @ ''/v0/datasources/'' @ i,
      req_params = [(''debug'', JStr ''columns''), (''include_workspace_names'', JStr ''true''),
                    (''token'', JStr (token self))],
      req_headers = headers (client self), req_timeout = timeout (client self)\<rparr>"
  assumes "\<not> is_closed (client self)"
  shows "snd (get_data_source srv self i sent) = sent @ [req self i] \<and>
         (\<forall>r j. srv sent (req self i) = Responds r \<and>
                200 \<le> status_code r \<and> status_code r \<le> 299 \<and> json_body r = Some j \<longrightarrow>
                fst (get_data_source srv self i sent) = Inr j)"
  using assms
  by (auto simp: get_data_source_def APIClient_get_open Let_def bind_def raise_for_status_def
      response_json_def)

theorem get_data_source_witness:
  "get_data_source
     (\<lambda>sent req. Responds \<lparr>status_code = 200, content = ''{}'',
                            json_body = Some (JObj [])\<rparr>)
     (APIClient_init ''https://api.example.test'' ''tok'') ''abc'' [] =
   (Inr (JObj []),
    [\<lparr>req_method = GET, req_url = ''https://api.example.test/v0/datasources/abc'',
      req_params = [(''debug'', JStr ''columns''), (''include_workspace_names'', JStr ''true''),
                    (''token'', JStr ''tok'')],
      req_headers = [(''Accept'', ''application/json''), (''User-Agent'', ''Python/APIClient'')],
      req_timeout = 30\<rparr>])"
  using get_data_source_request_and_result
     [of "APIClient_init ''https://api.example.test'' ''tok''"
         "\<lambda>sent req. Responds \<lparr>status_code = 200, content = ''{}'',
                            json_body = Some (JObj [])\<rparr>"
         "''abc''" "[]"]
  by (simp add: APIClient_init_def AsyncClient_init_def rstrip_def prod_eq_iff)

text \<open>
  C7, as the code has it. On an open client and for every pipe name and keyword mapping,
  \<open>get_pipe_data\<close> sends exactly one request, a GET to
  \<open>{api_url}/v0/pipes/{pipe_name}.json\<close>, whose parameters have \<open>token\<close> set to the
  client's token and contain every caller-supplied pair whose key is not \<open>token\<close>. When
  the answer is a 2xx response with a JSON body, the outcome is \<open>PipeData.from_dict\<close> of
  the whole body: for an object whose keys are exactly \<open>meta\<close>, \<open>data\<close>, \<open>rows\<close>,
  \<open>statistics\<close> the record of those four values, and for every other body a
  \<open>TypeError\<close>.
\<close>

theorem get_pipe_data_request_and_result:
  fixes srv :: server
  defines "req self n kw \<equiv>
     \<lparr>req_method = GET, req_url = api_url self @ ''/v0/pipes/'' @ n @ ''.json'',
      req_params = AList.update ''token'' (JStr (token self)) kw,
      req_headers = headers (client self), req_timeout = timeout (client self)\<rparr>"
  assumes "\<not> is_closed (client self)"
  shows "snd (get_pipe_data srv self n kw sent) = sent @ [req self n kw] \<and>
         map_of (req_params (req self n kw)) ''token'' = Some (JStr (token self)) \<and>
         (\<forall>k v. (k, v) \<in> set kw \<and> k \<noteq> ''token'' \<longrightarrow> (k, v) \<in> set (req_params (req self n kw))) \<and>
         (\<forall>r j. srv sent (req self n kw) = Responds r \<and>
                200 \<le> status_code r \<and> status_code r \<le> 299 \<and> json_body r = Some j \<longrightarrow>
                fst (get_pipe_data srv self n kw sent) = PipeData_from_dict j \<and>
                (spec_has_exactly PipeData_fields j \<longrightarrow>
                   (\<exists>d. fst (get_pipe_data srv self n kw sent) = Inr d \<and>
                        spec_PipeData_matches j d)) \<and>
                (\<not> spec_has_exactly PipeData_fields j \<longrightarrow>
                   fst (get_pipe_data srv self n kw sent) = Inl TypeError))"
proof (intro conjI allI impI)
  show "snd (get_pipe_data srv self n kw sent) = sent @ [req self n kw]"
    using assms by (simp add: get_pipe_data_def APIClient_get_open Let_def)
  show "map_of (req_params (req self n kw)) ''token'' = Some (JStr (token self))"
    by (simp add: req_def update_conv')
  show "(k, v) \<in> set (req_params (req self n kw))" if "(k, v) \<in> set kw \<and> k \<noteq> ''token''" for k v
    using that by (simp add: req_def in_set_update_other)
next
  fix r j
  assume h: "srv sent (req self n kw) = Responds r \<and>
        200 \<le> status_code r \<and> status_code r \<le> 299 \<and> json_body r = Some j"
  then show res: "fst (get_pipe_data srv self n kw sent) = PipeData_from_dict j"
    using assms
    by (simp add: get_pipe_data_def APIClient_get_open Let_def bind_def raise_for_status_def
        response_json_def)
  show "\<exists>d. fst (get_pipe_data srv self n kw sent) = Inr d \<and> spec_PipeData_matches j d"
    if "spec_has_exactly PipeData_fields j"
    using PipeData_from_dict_exact[OF that] by (simp add: res)
  show "fst (get_pipe_data srv self n kw sent) = Inl TypeError"
    if "\<not> spec_has_exactly PipeData_fields j"
    using PipeData_from_dict_not_exact[OF that] by (simp add: res)
qed

theorem get_pipe_data_witness:
  "get_pipe_data
     (\<lambda>sent req. Responds \<lparr>status_code = 200, content = ''body'',
        json_body = Some (JObj [(''meta'', JList []), (''data'', JList []), (''rows'', JInt 0),
                                (''statistics'', JObj [])])\<rparr>)
     (APIClient_init ''https://api.example.test'' ''tok'') ''p'' [(''year'', JInt 2024)] [] =
   (Inr \<lparr>pd_meta = JList [], pd_data = JList [], pd_rows = JInt 0, pd_statistics = JObj []\<rparr>,
    [\<lparr>req_method = GET, req_url = ''https://api.example.test/v0/pipes/p.json'',
      req_params = [(''year'', JInt 2024), (''token'', JStr ''tok'')],
      req_headers = [(''Accept'', ''application/json''), (''User-Agent'', ''Python/APIClient'')],
      req_timeout = 30\<rparr>])"
  using get_pipe_data_request_and_result
     [of "APIClient_init ''https://api.example.test'' ''tok''"
         "\<lambda>sent req. Responds \<lparr>status_code = 200, content = ''body'',
        json_body = Some (JObj [(''meta'', JList []), (''data'', JList []), (''rows'', JInt 0),
                                (''statistics'', JObj [])])\<rparr>"
         "''p''" "[(''year'', JInt 2024)]" "[]"]
  by (simp add: APIClient_init_def AsyncClient_init_def rstrip_def prod_eq_iff
      PipeData_from_dict_def PipeData_init_def PipeData_fields_def unexpected_def bind_def arg_def)

text \<open>
  C7 as stated fails twice. A caller who passes \<open>token=mine\<close> does not find that pair
  among the parameters of the request; the only \<open>token\<close> there is the client's. And a
  2xx body that has a fifth key beside \<open>meta\<close>, \<open>data\<close>, \<open>rows\<close>, \<open>statistics\<close> is
  not parsed into a record: the call ends with \<open>TypeError\<close>.
\<close>

theorem get_pipe_data_as_stated_counterexample:
  "snd (get_pipe_data (\<lambda>sent req. Fails ''down'')
          (APIClient_init ''https://api.example.test'' ''tok'') ''p''
          [(''token'', JStr ''mine'')] []) =
     [\<lparr>req_method = GET, req_url = ''https://api.example.test/v0/pipes/p.json'',
       req_params = [(''token'', JStr ''tok'')],
       req_headers = [(''Accept'', ''application/json''), (''User-Agent'', ''Python/APIClient'')],
       req_timeout = 30\<rparr>] \<and>
   (''token'', JStr ''mine'') \<notin> set [(''token'', JStr ''tok'')] \<and>
   fst (get_pipe_data
          (\<lambda>sent req. Responds \<lparr>status_code = 200, content = ''body'',
             json_body = Some (JObj [(''meta'', JList []), (''data'', JList []),
               (''rows'', JInt 0), (''rows_before_limit_at_least'', JInt 0),
               (''statistics'', JObj [])])\<rparr>)
          (APIClient_init ''https://api.example.test'' ''tok'') ''p'' [] []) = Inl TypeError"
  by (simp add: APIClient_init_def AsyncClient_init_def rstrip_def get_pipe_data_def
      APIClient_get_def AsyncClient_get_def bind_def raise_for_status_def response_json_def
      PipeData_from_dict_def PipeData_init_def PipeData_fields_def unexpected_def)

text \<open>
  C8, as the code has it. On an open client \<open>list_pipes\<close> sends exactly one request, a
  GET to \<open>{api_url}/v0/pipes\<close> with \<open>attrs=id,name,description,type,endpoint\<close> and the
  token. When the answer is a 2xx response whose JSON body has an array under \<open>pipes\<close>,
  the outcome is the element-by-element parse of that array in its order. If every entry
  is an object whose keys are exactly the six \<open>Pipe\<close> fields, the call returns a list as
  long as the array whose i-th record matches the i-th entry field by field; if some entry
  is not such an object, the call ends with \<open>TypeError\<close> and returns nothing.
\<close>

theorem list_pipes_request_and_result:
  fixes srv :: server
  defines "req self \<equiv>
     \<lparr>req_method = GET, req_url = api_url self @ ''/v0/pipes'',
      req_params = [(''attrs'', JStr ''id,name,description,type,endpoint''),
                    (''token'', JStr (token self))],
      req_headers = headers (client self), req_timeout = timeout (client self)\<rparr>"
  assumes "\<not> is_closed (client self)"
  shows "snd (list_pipes srv self sent) = sent @ [req self] \<and>
         (\<forall>r body entries.
            srv sent (req self) = Responds r \<and>
            200 \<le> status_code r \<and> status_code r \<le> 299 \<and> json_body r = Some body \<and>
            getitem body ''pipes'' = Inr (JList entries) \<longrightarrow>
            fst (list_pipes srv self sent) = comprehension Pipe_from_dict entries \<and>
            (\<forall>ps. fst (list_pipes srv self sent) = Inr ps \<longleftrightarrow>
                  list_all2 (\<lambda>e p. Pipe_from_dict e = Inr p) entries ps) \<and>
            (list_all (spec_has_exactly Pipe_fields) entries \<longrightarrow>
               (\<exists>ps. fst (list_pipes srv self sent) = Inr ps \<and> length ps = length entries \<and>
                     list_all2 spec_Pipe_matches entries ps)) \<and>
            (\<not> list_all (spec_has_exactly Pipe_fields) entries \<longrightarrow>
               fst (list_pipes srv self sent) = Inl TypeError))"
proof (intro conjI allI impI)
  show "snd (list_pipes srv self sent) = sent @ [req self]"
    using assms by (simp add: list_pipes_def APIClient_get_open Let_def)
next
  fix r body entries
  assume h: "srv sent (req self) = Responds r \<and>
            200 \<le> status_code r \<and> status_code r \<le> 299 \<and> json_body r = Some body \<and>
            getitem body ''pipes'' = Inr (JList entries)"
  then show res: "fst (list_pipes srv self sent) = comprehension Pipe_from_dict entries"
    using assms
    by (simp add: list_pipes_def APIClient_get_open Let_def bind_def raise_for_status_def
        response_json_def)
  show "fst (list_pipes srv self sent) = Inr ps \<longleftrightarrow>
          list_all2 (\<lambda>e p. Pipe_from_dict e = Inr p) entries ps" for ps
    by (simp add: res comprehension_Inr_iff)
  show "\<exists>ps. fst (list_pipes srv self sent) = Inr ps \<and> length ps = length entries \<and>
                     list_all2 spec_Pipe_matches entries ps"
    if "list_all (spec_has_exactly Pipe_fields) entries"
  proof -
    from pipes_exact[OF that] obtain ps where
      c: "comprehension Pipe_from_dict entries = Inr ps"
      and m: "list_all2 spec_Pipe_matches entries ps" by blast
    from m have "length ps = length entries" by (simp add: list_all2_lengthD)
    with c m res show ?thesis by simp
  qed
  show "fst (list_pipes srv self sent) = Inl TypeError"
    if "\<not> list_all (spec_has_exactly Pipe_fields) entries"
    using pipes_not_exact[OF that] by (simp add: res)
qed

theorem list_pipes_witness:
  "list_pipes
     (\<lambda>sent req. Responds \<lparr>status_code = 200, content = ''body'',
        json_body = Some (JObj [(''pipes'', JList
          [JObj [(''type'', JStr ''endpoint''), (''id'', JStr ''t_1''), (''name'', JStr ''first''),
                 (''description'', JNull), (''endpoint'', JStr ''n_1''), (''url'', JStr ''u1'')],
           JObj [(''type'', JStr ''default''), (''id'', JStr ''t_2''), (''name'', JStr ''second''),
                 (''description'', JStr ''d''), (''endpoint'', JNull), (''url'', JStr ''u2'')]])])\<rparr>)
     (APIClient_init ''https://api.example.test'' ''tok'') [] =
   (Inr [\<lparr>p_type = JStr ''endpoint'', p_id = JStr ''t_1'', p_name = JStr ''first'',
          p_description = JNull, p_endpoint = JStr ''n_1'', p_url = JStr ''u1''\<rparr>,
         \<lparr>p_type = JStr ''default'', p_id = JStr ''t_2'', p_name = JStr ''second'',
          p_description = JStr ''d'', p_endpoint = JNull, p_url = JStr ''u2''\<rparr>],
    [\<lparr>req_method = GET, req_url = ''https://api.example.test/v0/pipes'',
      req_params = [(''attrs'', JStr ''id,name,description,type,endpoint''),
                    (''token'', JStr ''tok'')],
      req_headers = [(''Accept'', ''application/json''), (''User-Agent'', ''Python/APIClient'')],
      req_timeout = 30\<rparr>])"
  (is "list_pipes ?srv ?c [] = (Inr [?p1, ?p2], [?req])")
proof -
  have op: "\<not> is_closed (client ?c)"
    by (simp add: APIClient_init_def AsyncClient_init_def)
  from list_pipes_request_and_result[OF op, of ?srv "[]"]
  have "snd (list_pipes ?srv ?c []) = [?req]"
    and "fst (list_pipes ?srv ?c []) = Inr [?p1, ?p2]"
    by (simp_all add: APIClient_init_def AsyncClient_init_def rstrip_def Pipe_from_dict_def
        Pipe_init_def Pipe_fields_def unexpected_def bind_def arg_def)
  then show ?thesis by (simp add: prod_eq_iff)
qed

text \<open>
  C8 as stated fails: a 2xx body whose \<open>pipes\<close> array has an entry with just the five
  attributes the request asks for (no \<open>url\<close>) gives no sequence of records; the call
  ends with \<open>TypeError\<close>.
\<close>

theorem list_pipes_entry_without_url_counterexample:
  "list_pipes
     (\<lambda>sent req. Responds \<lparr>status_code = 200, content = ''body'',
        json_body = Some (JObj [(''pipes'', JList
          [JObj [(''id'', JStr ''t_1''), (''name'', JStr ''first''), (''description'', JNull),
                 (''type'', JStr ''endpoint''), (''endpoint'', JStr ''n_1'')]])])\<rparr>)
     (APIClient_init ''https://api.example.test'' ''tok'') [] =
   (Inl TypeError,
    [\<lparr>req_method = GET, req_url = ''https://api.example.test/v0/pipes'',
      req_params = [(''attrs'', JStr ''id,name,description,type,endpoint''),
                    (''token'', JStr ''tok'')],
      req_headers = [(''Accept'', ''application/json''), (''User-Agent'', ''Python/APIClient'')],
      req_timeout = 30\<rparr>])"
  by (simp add: APIClient_init_def AsyncClient_init_def rstrip_def list_pipes_def
      APIClient_get_def AsyncClient_get_def bind_def raise_for_status_def response_json_def
      Pipe_from_dict_def Pipe_init_def Pipe_fields_def unexpected_def arg_def)

text \<open>
  C9. Once the client has been closed, by \<open>close\<close>, by leaving its scope, or anywhere in
  an earlier sequence of calls, each of the six operations ends with the closed-client
  error and sends nothing, whatever the server would have answered.
\<close>

theorem operations_fail_once_closed:
  "invoke srv (close self) op sent = (Inl ClientClosed, sent) \<and>
   invoke srv (aexit self) op sent = (Inl ClientClosed, sent) \<and>
   (Close \<in> set evs \<or> Exit \<in> set evs \<longrightarrow>
      invoke srv (fst (run srv' evs (self, sent0))) op sent = (Inl ClientClosed, sent))"
proof (intro conjI impI)
  show "invoke srv (close self) op sent = (Inl ClientClosed, sent)"
    by (rule invoke_closed) (simp add: close_def aclose_def)
  show "invoke srv (aexit self) op sent = (Inl ClientClosed, sent)"
    by (rule invoke_closed) (simp add: aexit_def close_def aclose_def)
  assume "Close \<in> set evs \<or> Exit \<in> set evs"
  then have "is_closed (client (fst (run srv' evs (self, sent0))))"
    by (intro run_closed) simp
  then show "invoke srv (fst (run srv' evs (self, sent0))) op sent = (Inl ClientClosed, sent)"
    by (rule invoke_closed)
qed

theorem operations_fail_once_closed_witness:
  "Exit \<in> set [Enter, Call ListPipes, Exit] \<and>
   invoke (\<lambda>sent req. Responds \<lparr>status_code = 200, content = ''{}'', json_body = Some (JObj [])\<rparr>)
     (fst (run (\<lambda>sent req. Responds \<lparr>status_code = 200, content = ''{}'', json_body = Some (JObj [])\<rparr>)
            [Enter, Call ListPipes, Exit]
            (APIClient_init ''https://api.example.test'' ''tok'', [])))
     (RunSelectQuery ''SELECT 1'') [] = (Inl ClientClosed, [])"
  using operations_fail_once_closed
     [of "\<lambda>sent req. Responds \<lparr>status_code = 200, content = ''{}'', json_body = Some (JObj [])\<rparr>"
         "APIClient_init ''https://api.example.test'' ''tok''" "RunSelectQuery ''SELECT 1''" "[]"
         "[Enter, Call ListPipes, Exit]"
         "\<lambda>sent req. Responds \<lparr>status_code = 200, content = ''{}'', json_body = Some (JObj [])\<rparr>" "[]"]
  by simp

text \<open>
  C10. Start from a freshly constructed client and let the caller do anything in any
  order: call operations, close, enter and leave the scope. The base URL is still the
  constructor's argument without its trailing slashes, the token is the constructor's, the
  timeout is 30 and the headers are \<open>Accept: application/json\<close> and
  \<open>User-Agent: Python/APIClient\<close>; and every request sent along the way has that
  timeout, those headers, a URL under that base URL and that token.
\<close>

theorem client_configuration_is_fixed:
  assumes "run srv evs (APIClient_init url tok, []) = (self', sent')"
  shows "api_url self' = rstrip url ''/'' \<and> token self' = tok \<and>
         timeout (client self') = 30 \<and>
         headers (client self') =
           [(''Accept'', ''application/json''), (''User-Agent'', ''Python/APIClient'')] \<and>
         (\<forall>req \<in> set sent'.
            req_timeout req = 30 \<and>
            req_headers req =
              [(''Accept'', ''application/json''), (''User-Agent'', ''Python/APIClient'')] \<and>
            (\<exists>endpoint. req_url req = rstrip url ''/'' @ ''/'' @ endpoint) \<and>
            map_of (req_params req) ''token'' = Some (JStr tok))"
  using run_invariant[OF assms]
  by (auto simp: APIClient_init_def AsyncClient_init_def)

theorem client_configuration_is_fixed_witness:
  "snd (run (\<lambda>sent req. Fails ''down'')
          [Enter, Call (GetPipe ''a''), Call (RunSelectQuery ''SELECT 1''), Exit, Call ListPipes]
          (APIClient_init ''https://api.example.test//'' ''tok'', [])) =
     [\<lparr>req_method = GET, req_url = ''https://api.example.test/v0/pipes/a'',
       req_params = [(''token'', JStr ''tok'')],
       req_headers = [(''Accept'', ''application/json''), (''User-Agent'', ''Python/APIClient'')],
       req_timeout = 30\<rparr>,
      \<lparr>req_method = GET, req_url = ''https://api.example.test/v0/sql'',
       req_params = [(''q'', JStr ''SELECT 1 FORMAT JSON''), (''token'', JStr ''tok'')],
       req_headers = [(''Accept'', ''application/json''), (''User-Agent'', ''Python/APIClient'')],
       req_timeout = 30\<rparr>] \<and>
   api_url (fst (run (\<lambda>sent req. Fails ''down'')
          [Enter, Call (GetPipe ''a''), Call (RunSelectQuery ''SELECT 1''), Exit, Call ListPipes]
          (APIClient_init ''https://api.example.test//'' ''tok'', []))) = ''https://api.example.test'' \<and>
   token (fst (run (\<lambda>sent req. Fails ''down'')
          [Enter, Call (GetPipe ''a''), Call (RunSelectQuery ''SELECT 1''), Exit, Call ListPipes]
          (APIClient_init ''https://api.example.test//'' ''tok'', []))) = ''tok''"
proof -
  let ?srv = "\<lambda>(sent :: request list) (req :: request). Fails ''down''"
  let ?evs = "[Enter, Call (GetPipe ''a''), Call (RunSelectQuery ''SELECT 1''), Exit, Call ListPipes]"
  let ?st = "run ?srv ?evs (APIClient_init ''https://api.example.test//'' ''tok'', [])"
  have r: "rstrip ''https://api.example.test//'' ''/'' = ''https://api.example.test''"
    by (simp add: rstrip_def)
  have "?st = (fst ?st, snd ?st)" by simp
  from client_configuration_is_fixed[OF this]
  have c: "api_url (fst ?st) = ''https://api.example.test''" "token (fst ?st) = ''tok''"
    by (simp_all add: r)
  have "snd ?st =
     [\<lparr>req_method = GET, req_url = ''https://api.example.test/v0/pipes/a'',
       req_params = [(''token'', JStr ''tok'')],
       req_headers = [(''Accept'', ''application/json''), (''User-Agent'', ''Python/APIClient'')],
       req_timeout = 30\<rparr>,
      \<lparr>req_method = GET, req_url = ''https://api.example.test/v0/sql'',
       req_params = [(''q'', JStr ''SELECT 1 FORMAT JSON''), (''token'', JStr ''tok'')],
       req_headers = [(''Accept'', ''application/json''), (''User-Agent'', ''Python/APIClient'')],
       req_timeout = 30\<rparr>]"
    by (simp add: run_def APIClient_init_def AsyncClient_init_def r aenter_def aexit_def close_def
        aclose_def returning_def get_pipe_def run_select_query_def list_pipes_def
        APIClient_get_def AsyncClient_get_def bind_def)
  with c show ?thesis by simp
qed

end
